theory Spec2Isabelle
  imports Main
begin

section \<open>The delta log: \<open>streamlit.ReportQueue\<close>\<close>

text \<open>
  \<open>ProxyConnection.py\<close> imports \<open>ReportQueue\<close> from \<open>streamlit/ReportQueue.py\<close>, a
  module of this repository whose text is not among the sources at hand. The five
  operations the connection calls on it (constructor, \<open>__call__\<close>, \<open>clone\<close>,
  \<open>close\<close>, \<open>get_deltas\<close>) are modelled below from the specification's description of the
  Delta Log (data model and component design 4.1).
\<close>

record 'd ReportQueue =
  deltas :: "'d list"
  closed :: bool

definition ReportQueue_init :: "'d ReportQueue" where
  \<comment> \<open>Modelled from the spec: \<open>ReportQueue()\<close>, missing from the sources.
      "Created empty when a session starts", and open.\<close>
  "ReportQueue_init = \<lparr>deltas = [], closed = False\<rparr>"

definition ReportQueue_call :: "'d ReportQueue \<Rightarrow> 'd \<Rightarrow> 'd ReportQueue" where
  \<comment> \<open>Modelled from the spec: \<open>ReportQueue.__call__(delta)\<close>, missing from the sources.
      "append(delta): fails silently (no-op) if the log is closed; otherwise stores the
      delta in order."\<close>
  "ReportQueue_call q d = (if closed q then q else q\<lparr>deltas := deltas q @ [d]\<rparr>)"

definition ReportQueue_get_deltas :: "'d ReportQueue \<Rightarrow> 'd list \<times> 'd ReportQueue" where
  \<comment> \<open>Modelled from the spec: \<open>ReportQueue.get_deltas()\<close>, missing from the sources.
      "drain(): returns all stored deltas in append order and atomically clears internal
      storage." The result is the drained list and the queue as it is left.\<close>
  "ReportQueue_get_deltas q = (deltas q, q\<lparr>deltas := []\<rparr>)"

definition ReportQueue_clone :: "'d ReportQueue \<Rightarrow> 'd ReportQueue" where
  \<comment> \<open>Modelled from the spec: \<open>ReportQueue.clone()\<close>, missing from the sources.
      "clone(): returns a new log instance containing a copy of every delta currently
      present, in the same order, independently mutable thereafter." The copy of a
      closed log is closed: \<open>enqueue\<close> on a session whose master log is closed is a
      silent no-op (spec 4.2), and \<open>enqueue\<close> forwards the delta to every client queue,
      so a queue cloned after the close must drop it as well.\<close>
  "ReportQueue_clone q = \<lparr>deltas = deltas q, closed = closed q\<rparr>"

definition ReportQueue_close :: "'d ReportQueue \<Rightarrow> 'd ReportQueue" where
  \<comment> \<open>Modelled from the spec: \<open>ReportQueue.close()\<close>, missing from the sources.
      "close(): idempotent; flips the closed flag."\<close>
  "ReportQueue_close q = q\<lparr>closed := True\<rparr>"


section \<open>Objects shared with the callers: a store of queues\<close>

text \<open>
  \<open>add_client_queue\<close> hands the new queue object to its caller and keeps the same object in
  \<open>_client_queues\<close>; \<open>enqueue\<close> and \<open>finished_local_connection\<close> later mutate it in place and
  \<open>remove_client_queue\<close> looks it up again. The client queues therefore live in a store:
  a queue object is its address, the index into the list of all queues allocated so far.
  The master queue is reachable from the connection only and is kept inline.
\<close>

type_synonym addr = nat

type_synonym 'd store = "'d ReportQueue list"

definition store_get :: "'d store \<Rightarrow> addr \<Rightarrow> 'd ReportQueue option" where
  "store_get h a = (if a < length h then Some (h ! a) else None)"

definition store_new :: "'d store \<Rightarrow> 'd ReportQueue \<Rightarrow> addr \<times> 'd store" where
  \<comment> \<open>Allocation: the new object gets the next unused address.\<close>
  "store_new h q = (length h, h @ [q])"

definition store_apply :: "addr \<Rightarrow> ('d ReportQueue \<Rightarrow> 'd ReportQueue) \<Rightarrow> 'd store \<Rightarrow> 'd store" where
  \<comment> \<open>In-place mutation of the object at an address. A Python reference always points
      to an object; an address outside the store changes nothing.\<close>
  "store_apply a f h = (if a < length h then h[a := f (h ! a)] else h)"


section \<open>The environment of a connection\<close>

datatype json = JStr string | JInt int | JObj "(string \<times> json) list"

text \<open>
  What the connection reads from its collaborators, none of them in the sources:
  the four \<open>config.get_option\<close> values, whether \<open>Observer.start()\<close> of the watchdog
  library succeeds for a path and a mode (it raises \<open>OSError\<close> otherwise, the one
  exception the source catches), whether watchdog's pattern filter lets a path through,
  whether \<open>subprocess.Popen\<close> can start the command, \<open>str(get_local_id())\<close>,
  \<open>json.dumps\<close>, and the \<open>SerializeToString\<close> method of a delta.
\<close>

record 'd env =
  watchFileSystem :: bool
  watchUpdatesRecursively :: bool
  watchPatterns :: "string list"
  ignorePatterns :: "string list"
  observer_start_ok :: "string \<Rightarrow> bool \<Rightarrow> bool"
  match_any_paths :: "string list \<Rightarrow> string list \<Rightarrow> string \<Rightarrow> bool"
  popen_ok :: "string list \<Rightarrow> string \<Rightarrow> bool"
  get_local_id :: string
  json_dumps :: "json \<Rightarrow> string"
  SerializeToString :: "'d \<Rightarrow> string"

datatype error = ValueError | OSError


section \<open>The file system observer\<close>

record Observer =
  obs_path :: string
  obs_recursive :: bool
  obs_patterns :: "string list"
  obs_ignore_patterns :: "string list"
  stop_requested :: bool

definition dirname :: "string \<Rightarrow> string" where
  \<comment> \<open>\<open>os.path.dirname\<close> of \<open>posixpath\<close>: everything up to the last slash, with trailing
      slashes stripped unless nothing else is left.\<close>
  "dirname p =
     (let head = rev (dropWhile (\<lambda>c. c \<noteq> CHR ''/'') (rev p))
      in if head \<noteq> [] \<and> head \<noteq> replicate (length head) (CHR ''/'')
         then rev (dropWhile (\<lambda>c. c = CHR ''/'') (rev head))
         else head)"

definition initialize_fs_observer ::
  "'d env \<Rightarrow> string \<Rightarrow> bool \<Rightarrow> string list \<Rightarrow> string list \<Rightarrow> Observer option" where
  \<comment> \<open>\<open>_initialize_fs_observer\<close>: schedule the handler, start the observer; \<open>None\<close> when
      \<open>start()\<close> raises \<open>OSError\<close>.\<close>
  "initialize_fs_observer env path_to_observe recursive pats ignore_pats =
     (if observer_start_ok env path_to_observe recursive
      then Some \<lparr>obs_path = path_to_observe, obs_recursive = recursive,
                 obs_patterns = pats, obs_ignore_patterns = ignore_pats,
                 stop_requested = False\<rparr>
      else None)"

definition initialize_fs_observer_with_fallback ::
  "'d env \<Rightarrow> string \<Rightarrow> Observer option \<times> (string \<times> bool) list" where
  \<comment> \<open>\<open>ProxyConnection._initialize_fs_observer_with_fallback\<close>. The second component is
      not in the source: it lists, in order, the calls of \<open>_initialize_fs_observer\<close>
      that were made, each with its path and its mode.\<close>
  "initialize_fs_observer_with_fallback env src_file_path =
     (let do_watch = watchFileSystem env in
      if \<not> do_watch then (None, [])
      else
        let recursive = watchUpdatesRecursively env;
            pats = watchPatterns env;
            ignore_pats = ignorePatterns env;
            path_to_observe = dirname src_file_path;
            fs_obs = initialize_fs_observer env path_to_observe recursive pats ignore_pats
        in if fs_obs = None \<and> recursive = True
           then (initialize_fs_observer env path_to_observe False pats ignore_pats,
                 [(path_to_observe, recursive), (path_to_observe, False)])
           else (fs_obs, [(path_to_observe, recursive)]))"


section \<open>The connection: \<open>ProxyConnection\<close>\<close>

record NewReport =
  msg_id :: string
  msg_cwd :: string
  msg_command_line :: "string list"
  msg_source_file_path :: string

record 'd ProxyConnection =
  conn_id :: string
  cwd :: string
  command_line :: "string list"
  source_file_path :: string
  name :: string
  has_local :: bool
  in_grace_period :: bool
  master_queue :: "'d ReportQueue"
  client_queues :: "addr list"
  fs_observer :: "Observer option"

text \<open>The state the methods work on: the connection object and the store of client queues.\<close>

record 'd state =
  store :: "'d store"
  conn :: "'d ProxyConnection"

definition ProxyConnection_init :: "'d env \<Rightarrow> 'd store \<Rightarrow> NewReport \<Rightarrow> string \<Rightarrow> 'd state" where
  \<comment> \<open>\<open>ProxyConnection.__init__(new_report_msg, name)\<close>, in a store that may already hold
      the queues of other connections.\<close>
  "ProxyConnection_init env h new_report_msg nm =
     \<lparr>store = h,
      conn = \<lparr>conn_id = msg_id new_report_msg,
              cwd = msg_cwd new_report_msg,
              command_line = msg_command_line new_report_msg,
              source_file_path = msg_source_file_path new_report_msg,
              name = nm,
              has_local = True,
              in_grace_period = True,
              master_queue = ReportQueue_init,
              client_queues = [],
              fs_observer =
                fst (initialize_fs_observer_with_fallback env
                       (msg_source_file_path new_report_msg))\<rparr>\<rparr>"

definition close :: "'d state \<Rightarrow> 'd state" where
  \<comment> \<open>\<open>close\<close>: asks the observer, if there is one, to stop (and waits at most five
      seconds for its thread).\<close>
  "close s =
     (case fs_observer (conn s) of
        None \<Rightarrow> s
      | Some ob \<Rightarrow> s\<lparr>conn := (conn s)\<lparr>fs_observer := Some (ob\<lparr>stop_requested := True\<rparr>)\<rparr>\<rparr>)"

primrec close_clients :: "addr list \<Rightarrow> 'd store \<Rightarrow> 'd store" where
  \<comment> \<open>\<open>for queue in self._client_queues: queue.close()\<close>\<close>
  "close_clients [] h = h"
| "close_clients (a # as) h = close_clients as (store_apply a ReportQueue_close h)"

definition finished_local_connection :: "'d state \<Rightarrow> 'd state" where
  "finished_local_connection s =
     (let c1 = (conn s)\<lparr>has_local := False\<rparr>;
          c2 = c1\<lparr>master_queue := ReportQueue_close (master_queue c1)\<rparr>
      in \<lparr>store = close_clients (client_queues c2) (store s), conn = c2\<rparr>)"

definition end_grace_period :: "'d state \<Rightarrow> 'd state" where
  "end_grace_period s = s\<lparr>conn := (conn s)\<lparr>in_grace_period := False\<rparr>\<rparr>"

definition can_be_deregistered :: "'d state \<Rightarrow> bool" where
  "can_be_deregistered s =
     (let has_clients = length (client_queues (conn s)) > 0
      in \<not> (in_grace_period (conn s) \<or> has_local (conn s) \<or> has_clients))"

primrec enqueue_clients :: "addr list \<Rightarrow> 'd \<Rightarrow> 'd store \<Rightarrow> 'd store" where
  \<comment> \<open>\<open>for queue in self._client_queues: queue(delta)\<close>\<close>
  "enqueue_clients [] d h = h"
| "enqueue_clients (a # as) d h =
     enqueue_clients as d (store_apply a (\<lambda>q. ReportQueue_call q d) h)"

definition enqueue :: "'d state \<Rightarrow> 'd \<Rightarrow> 'd state" where
  "enqueue s delta =
     (let c1 = (conn s)\<lparr>master_queue := ReportQueue_call (master_queue (conn s)) delta\<rparr>
      in \<lparr>store = enqueue_clients (client_queues c1) delta (store s), conn = c1\<rparr>)"

definition add_client_queue :: "'d state \<Rightarrow> addr \<times> 'd state" where
  \<comment> \<open>Returns the new queue object (its address) and the state it leaves.\<close>
  "add_client_queue s =
     (let s1 = end_grace_period s;
          (new_queue, h) = store_new (store s1) (ReportQueue_clone (master_queue (conn s1)))
      in (new_queue,
          \<lparr>store = h,
           conn = (conn s1)\<lparr>client_queues := client_queues (conn s1) @ [new_queue]\<rparr>\<rparr>))"

definition remove_client_queue :: "'d state \<Rightarrow> addr \<Rightarrow> error + 'd state" where
  \<comment> \<open>\<open>self._client_queues.remove(queue)\<close>: Python's \<open>list.remove\<close> deletes the first
      element equal to its argument and raises \<open>ValueError\<close> when there is none. Queue
      objects are compared by identity, here by address.\<close>
  "remove_client_queue s queue =
     (if queue \<in> set (client_queues (conn s))
      then Inr (s\<lparr>conn := (conn s)\<lparr>client_queues := remove1 queue (client_queues (conn s))\<rparr>\<rparr>)
      else Inl ValueError)"

fun str_nat :: "nat \<Rightarrow> string" where
  \<comment> \<open>\<open>str\<close> of a non-negative integer, as the f-string renders \<open>idx\<close>.\<close>
  "str_nat n =
     (if n < 10 then [''0123456789'' ! n]
      else str_nat (n div 10) @ [''0123456789'' ! (n mod 10)])"

definition serialize_report_to_files ::
  "'d env \<Rightarrow> 'd state \<Rightarrow> (string \<times> string) list \<times> 'd state" where
  \<comment> \<open>Returns the list of pairs and the state it leaves. The clone is a temporary:
      \<open>get_deltas\<close> empties it, and nothing refers to it afterwards.\<close>
  "serialize_report_to_files env s =
     (let tmp = ReportQueue_clone (master_queue (conn s));
          (ds, tmp') = ReportQueue_get_deltas tmp;
          local_id = get_local_id env;
          manifest = JObj [(''name'', JStr (name (conn s))),
                           (''local_id'', JStr local_id),
                           (''nDeltas'', JInt (int (length ds)))]
      in ([(''reports/'' @ conn_id (conn s) @ ''/manifest.json'', json_dumps env manifest)] @
          map (\<lambda>(idx, delta).
                 (''reports/'' @ conn_id (conn s) @ ''/'' @ str_nat idx @ ''.delta'',
                  SerializeToString env delta))
              (List.enumerate 0 ds),
          s))"


section \<open>The change handler: \<open>FSEventHandler\<close> and \<open>_on_fs_event\<close>\<close>

datatype event_type = Created | Modified | Moved | Deleted

record FileSystemEvent =
  event_type :: event_type
  src_path :: string

fun event_type_str :: "event_type \<Rightarrow> string" where
  "event_type_str Created = ''created''"
| "event_type_str Modified = ''modified''"
| "event_type_str Moved = ''moved''"
| "event_type_str Deleted = ''deleted''"

text \<open>
  What the handler does to the outside world, in the order it does it: a line for the
  logger, a process started with a command line in a working directory, and the wait for
  the process started last to exit.
\<close>

datatype effect = LogInfo string | Popen "string list" string | Wait

definition on_fs_event ::
  "'d env \<Rightarrow> 'd ProxyConnection \<Rightarrow> FileSystemEvent \<Rightarrow> effect list
     \<Rightarrow> error option \<times> effect list" where
  \<comment> \<open>\<open>ProxyConnection._on_fs_event\<close>. \<open>subprocess.Popen\<close> raises \<open>OSError\<close> when it cannot
      start the command; the exception leaves the method before \<open>wait\<close>.\<close>
  "on_fs_event env c event fx =
     (let fx1 = fx @ [LogInfo (''File system event: ['' @ event_type_str (event_type event)
                                 @ ''] '' @ src_path event)]
      in if popen_ok env (command_line c) (cwd c)
         then (None, fx1 @ [Popen (command_line c) (cwd c), Wait])
         else (Some OSError, fx1))"

definition on_any_event ::
  "'d env \<Rightarrow> 'd ProxyConnection \<Rightarrow> FileSystemEvent \<Rightarrow> effect list
     \<Rightarrow> error option \<times> effect list" where
  \<comment> \<open>\<open>FSEventHandler.on_any_event\<close>: \<open>self._fn_to_run(event)\<close>, where \<open>_fn_to_run\<close> is the
      bound method \<open>_on_fs_event\<close> of the connection that created the handler.\<close>
  "on_any_event env c event fx = on_fs_event env c event fx"

definition dispatch ::
  "'d env \<Rightarrow> Observer \<Rightarrow> 'd ProxyConnection \<Rightarrow> FileSystemEvent \<Rightarrow> effect list
     \<Rightarrow> error option \<times> effect list" where
  \<comment> \<open>The filter of watchdog's \<open>PatternMatchingEventHandler\<close>, which is not part of this
      repository: an event whose path passes the patterns reaches \<open>on_any_event\<close>, any
      other event is ignored.\<close>
  "dispatch env ob c event fx =
     (if match_any_paths env (obs_patterns ob) (obs_ignore_patterns ob) (src_path event)
      then on_any_event env c event fx
      else (None, fx))"

fun dispatch_events ::
  "'d env \<Rightarrow> Observer \<Rightarrow> 'd ProxyConnection \<Rightarrow> FileSystemEvent list \<Rightarrow> effect list
     \<Rightarrow> error option \<times> effect list" where
  \<comment> \<open>The observer's worker handles its events one after the other; an exception ends it.\<close>
  "dispatch_events env ob c [] fx = (None, fx)"
| "dispatch_events env ob c (e # es) fx =
     (case dispatch env ob c e fx of
        (None, fx') \<Rightarrow> dispatch_events env ob c es fx'
      | (Some err, fx') \<Rightarrow> (Some err, fx'))"

fun is_process_effect :: "effect \<Rightarrow> bool" where
  "is_process_effect (LogInfo _) = False"
| "is_process_effect _ = True"


section \<open>Histories of a connection\<close>

text \<open>
  The public methods of a connection, as the steps of a history. A step that raises ends
  the history with the error.
\<close>

datatype 'd op =
    Enqueue 'd
  | AddClientQueue
  | RemoveClientQueue addr
  | FinishedLocalConnection
  | EndGracePeriod
  | CanBeDeregistered
  | SerializeReportToFiles
  | Close

fun step :: "'d env \<Rightarrow> 'd state \<Rightarrow> 'd op \<Rightarrow> error + 'd state" where
  "step env s (Enqueue d) = Inr (enqueue s d)"
| "step env s AddClientQueue = Inr (snd (add_client_queue s))"
| "step env s (RemoveClientQueue q) = remove_client_queue s q"
| "step env s FinishedLocalConnection = Inr (finished_local_connection s)"
| "step env s EndGracePeriod = Inr (end_grace_period s)"
| "step env s CanBeDeregistered = (let b = can_be_deregistered s in Inr s)"
| "step env s SerializeReportToFiles = Inr (snd (serialize_report_to_files env s))"
| "step env s Close = Inr (close s)"

fun run :: "'d env \<Rightarrow> 'd state \<Rightarrow> 'd op list \<Rightarrow> error + 'd state" where
  "run env s [] = Inr s"
| "run env s (x # xs) = (case step env s x of Inl e \<Rightarrow> Inl e | Inr s' \<Rightarrow> run env s' xs)"

fun accepted :: "'d op list \<Rightarrow> 'd list" where
  \<comment> \<open>The deltas a history enqueues while the producer is attached: those of its
      \<open>Enqueue\<close> steps before the first \<open>FinishedLocalConnection\<close>.\<close>
  "accepted [] = []"
| "accepted (Enqueue d # xs) = d # accepted xs"
| "accepted (FinishedLocalConnection # xs) = []"
| "accepted (x # xs) = accepted xs"

definition wf_clients :: "'d state \<Rightarrow> bool" where
  \<comment> \<open>The client queues are distinct objects of the store.\<close>
  "wf_clients s =
     (distinct (client_queues (conn s)) \<and>
      list_all (\<lambda>a. a < length (store s)) (client_queues (conn s)))"


definition frame_of ::
  "'d ProxyConnection \<Rightarrow> string \<times> string \<times> string list \<times> string \<times> string" where
  \<comment> \<open>The fields the constructor copies from its arguments.\<close>
  "frame_of c = (conn_id c, cwd c, command_line c, source_file_path c, name c)"



section \<open>A concrete environment and report\<close>

fun join_with :: "string \<Rightarrow> string list \<Rightarrow> string" where
  "join_with sep [] = []"
| "join_with sep [x] = x"
| "join_with sep (x # y # ys) = x @ sep @ join_with sep (y # ys)"

fun render_json :: "json \<Rightarrow> string" where
  \<comment> \<open>A rendering of JSON values, for the example environment only.\<close>
  "render_json (JStr s) = [CHR 0x22] @ s @ [CHR 0x22]"
| "render_json (JInt i) = (if i < 0 then ''-'' else []) @ str_nat (nat \<bar>i\<bar>)"
| "render_json (JObj kvs) =
     ''{'' @ join_with '', ''
              (map (\<lambda>(k, v). [CHR 0x22] @ k @ [CHR 0x22] @ '': '' @ render_json v) kvs)
         @ ''}''"

definition example_env :: "string env" where
  \<comment> \<open>Watching is on and recursive; the observer starts in flat mode only.\<close>
  "example_env =
     \<lparr>watchFileSystem = True, watchUpdatesRecursively = True,
      watchPatterns = [''*.py''], ignorePatterns = [],
      observer_start_ok = (\<lambda>p r. \<not> r),
      match_any_paths = (\<lambda>pats ign p. True),
      popen_ok = (\<lambda>cmd dir. True),
      get_local_id = ''42'',
      json_dumps = render_json,
      SerializeToString = (\<lambda>d. d)\<rparr>"

definition example_msg :: NewReport where
  "example_msg =
     \<lparr>msg_id = ''abc'', msg_cwd = ''/home/u'',
      msg_command_line = [''python'', ''demo.py''],
      msg_source_file_path = ''/home/u/demo.py''\<rparr>"

definition example_conn :: "string state" where
  "example_conn = ProxyConnection_init example_env [] example_msg ''demo''"

definition example_observer :: Observer where
  "example_observer =
     \<lparr>obs_path = ''/home/u'', obs_recursive = False,
      obs_patterns = [''*.py''], obs_ignore_patterns = [], stop_requested = False\<rparr>"


section \<open>Basic facts\<close>

subsection \<open>The store\<close>

lemma length_store_apply [simp]: "length (store_apply a f h) = length h"
  by (simp add: store_apply_def)

lemma length_enqueue_clients [simp]: "length (enqueue_clients as d h) = length h"
  by (induction as arbitrary: h) simp_all

lemma length_close_clients [simp]: "length (close_clients as h) = length h"
  by (induction as arbitrary: h) simp_all



subsection \<open>What each method does to the connection and to the store\<close>

lemma conn_enqueue:
  "conn (enqueue s d) =
     (conn s)\<lparr>master_queue := ReportQueue_call (master_queue (conn s)) d\<rparr>"
  by (simp add: enqueue_def Let_def)

lemma conn_finished:
  "conn (finished_local_connection s) =
     (conn s)\<lparr>has_local := False,
              master_queue := ReportQueue_close (master_queue (conn s))\<rparr>"
  by (simp add: finished_local_connection_def Let_def)

lemma conn_add:
  "conn (snd (add_client_queue s)) =
     (conn s)\<lparr>in_grace_period := False,
              client_queues := client_queues (conn s) @ [length (store s)]\<rparr>"
  by (simp add: add_client_queue_def end_grace_period_def store_new_def Let_def)

lemma conn_close:
  "conn (close s) =
     (conn s)\<lparr>fs_observer :=
                map_option (\<lambda>ob. ob\<lparr>stop_requested := True\<rparr>) (fs_observer (conn s))\<rparr>"
  by (simp add: close_def split: option.splits)

lemma store_enqueue:
  "store (enqueue s d) = enqueue_clients (client_queues (conn s)) d (store s)"
  by (simp add: enqueue_def Let_def)

lemma store_finished:
  "store (finished_local_connection s) = close_clients (client_queues (conn s)) (store s)"
  by (simp add: finished_local_connection_def Let_def)

lemma store_add:
  "store (snd (add_client_queue s)) = store s @ [ReportQueue_clone (master_queue (conn s))]"
  by (simp add: add_client_queue_def end_grace_period_def store_new_def Let_def)

lemma fst_add: "fst (add_client_queue s) = length (store s)"
  by (simp add: add_client_queue_def end_grace_period_def store_new_def Let_def)

lemma store_close: "store (close s) = store s"
  by (simp add: close_def split: option.splits)

lemma serialize_state [simp]: "snd (serialize_report_to_files env s) = s"
  by (simp add: serialize_report_to_files_def ReportQueue_get_deltas_def Let_def
           split: prod.splits)

subsection \<open>The exported entries\<close>

lemma serialize_entries:
  "fst (serialize_report_to_files env s) =
     (''reports/'' @ conn_id (conn s) @ ''/manifest.json'',
      json_dumps env (JObj [(''name'', JStr (name (conn s))),
                            (''local_id'', JStr (get_local_id env)),
                            (''nDeltas'', JInt (int (length (deltas (master_queue (conn s))))))]))
     # map (\<lambda>k. (''reports/'' @ conn_id (conn s) @ ''/'' @ str_nat k @ ''.delta'',
                  SerializeToString env (deltas (master_queue (conn s)) ! k)))
           [0..<length (deltas (master_queue (conn s)))]"
proof -
  have "map (\<lambda>(idx, delta). f idx delta) (List.enumerate 0 ds)
          = map (\<lambda>k. f k (ds ! k)) [0..<length ds]"
    for f :: "nat \<Rightarrow> 'a \<Rightarrow> string \<times> string" and ds
    by (rule nth_equalityI) (simp_all add: nth_enumerate_eq)
  then show ?thesis
    by (simp add: serialize_report_to_files_def ReportQueue_get_deltas_def
                  ReportQueue_clone_def Let_def del: str_nat.simps)
qed

lemma serialize_cong:
  assumes "frame_of (conn s) = frame_of (conn s')"
    and "deltas (master_queue (conn s)) = deltas (master_queue (conn s'))"
  shows "fst (serialize_report_to_files env s) = fst (serialize_report_to_files env s')"
  using assms unfolding serialize_entries by (simp add: frame_of_def)

subsection \<open>Invariants of histories\<close>

lemma step_grace:
  "step env s x = Inr s' \<Longrightarrow> \<not> in_grace_period (conn s) \<Longrightarrow> \<not> in_grace_period (conn s')"
  by (cases x) (auto simp: conn_enqueue conn_finished conn_add conn_close end_grace_period_def
        remove_client_queue_def split: if_splits)

lemma run_grace:
  "run env s xs = Inr s' \<Longrightarrow> \<not> in_grace_period (conn s) \<Longrightarrow> \<not> in_grace_period (conn s')"
proof (induction xs arbitrary: s)
  case Nil then show ?case by simp
next
  case (Cons x xs)
  then show ?case by (auto split: sum.splits dest: step_grace)
qed

lemma step_frame: "step env s x = Inr s' \<Longrightarrow> frame_of (conn s') = frame_of (conn s)"
  by (cases x) (auto simp: frame_of_def conn_enqueue conn_finished conn_add conn_close
        end_grace_period_def remove_client_queue_def split: if_splits)

lemma run_frame: "run env s xs = Inr s' \<Longrightarrow> frame_of (conn s') = frame_of (conn s)"
proof (induction xs arbitrary: s)
  case Nil then show ?case by simp
next
  case (Cons x xs)
  then show ?case by (auto split: sum.splits dest: step_frame)
qed

lemma step_wf: "step env s x = Inr s' \<Longrightarrow> wf_clients s \<Longrightarrow> wf_clients s'"
proof (cases x)
  case (RemoveClientQueue a)
  assume "step env s x = Inr s'" "wf_clients s"
  with RemoveClientQueue show ?thesis
    by (auto simp: wf_clients_def remove_client_queue_def list_all_iff split: if_splits
             dest: notin_set_remove1)
qed (auto simp: wf_clients_def conn_enqueue store_enqueue conn_finished store_finished
        conn_add store_add conn_close store_close end_grace_period_def list_all_iff less_Suc_eq)

lemma run_wf: "run env s xs = Inr s' \<Longrightarrow> wf_clients s \<Longrightarrow> wf_clients s'"
proof (induction xs arbitrary: s)
  case Nil then show ?case by simp
next
  case (Cons x xs)
  then show ?case by (auto split: sum.splits dest: step_wf)
qed

lemma init_wf: "wf_clients (ProxyConnection_init env h msg nm)"
  by (simp add: wf_clients_def ProxyConnection_init_def)

subsection \<open>The master queue along a history\<close>

lemma step_master:
  "step env s x = Inr s' \<Longrightarrow>
   master_queue (conn s') =
     (case x of Enqueue d \<Rightarrow> ReportQueue_call (master_queue (conn s)) d
      | FinishedLocalConnection \<Rightarrow> ReportQueue_close (master_queue (conn s))
      | _ \<Rightarrow> master_queue (conn s))"
  by (cases x) (auto simp: conn_enqueue conn_finished conn_add conn_close
        end_grace_period_def remove_client_queue_def split: if_splits)

lemma run_master_closed:
  "run env s xs = Inr s' \<Longrightarrow> closed (master_queue (conn s)) \<Longrightarrow>
   master_queue (conn s') = master_queue (conn s)"
proof (induction xs arbitrary: s)
  case Nil then show ?case by simp
next
  case (Cons x xs)
  from Cons.prems obtain s1 where s1: "step env s x = Inr s1" "run env s1 xs = Inr s'"
    by (auto split: sum.splits)
  have "master_queue (conn s1) = master_queue (conn s)"
    using step_master[OF s1(1)] Cons.prems(2)
    by (cases x) (simp_all add: ReportQueue_call_def ReportQueue_close_def)
  with Cons.IH[OF s1(2)] Cons.prems(2) show ?case by simp
qed

lemma run_master_open:
  "run env s xs = Inr s' \<Longrightarrow> \<not> closed (master_queue (conn s)) \<Longrightarrow>
   deltas (master_queue (conn s')) = deltas (master_queue (conn s)) @ accepted xs"
proof (induction xs arbitrary: s)
  case Nil then show ?case by simp
next
  case (Cons x xs)
  from Cons.prems obtain s1 where s1: "step env s x = Inr s1" "run env s1 xs = Inr s'"
    by (auto split: sum.splits)
  show ?case
  proof (cases x)
    case FinishedLocalConnection
    with step_master[OF s1(1)] have "closed (master_queue (conn s1))"
      "deltas (master_queue (conn s1)) = deltas (master_queue (conn s))"
      by (simp_all add: ReportQueue_close_def)
    with run_master_closed[OF s1(2)] FinishedLocalConnection show ?thesis by simp
  next
    case (Enqueue d)
    with step_master[OF s1(1)] Cons.prems(2)
    have "\<not> closed (master_queue (conn s1))"
      "deltas (master_queue (conn s1)) = deltas (master_queue (conn s)) @ [d]"
      by (simp_all add: ReportQueue_call_def)
    with Cons.IH[OF s1(2)] Enqueue show ?thesis by simp
  qed (use step_master[OF s1(1)] Cons.IH[OF s1(2)] Cons.prems(2) in simp_all)
qed


lemma init_master: "master_queue (conn (ProxyConnection_init env h msg nm)) = ReportQueue_init"
  by (simp add: ProxyConnection_init_def)

lemma run_init_master_deltas:
  assumes "run env (ProxyConnection_init env h msg nm) xs = Inr s"
  shows "deltas (master_queue (conn s)) = accepted xs"
  using run_master_open[OF assms] by (simp add: init_master ReportQueue_init_def)


subsection \<open>An attached client queue follows the master queue\<close>





subsection \<open>The change handler\<close>

lemma dispatch_match:
  assumes "match_any_paths env (obs_patterns ob) (obs_ignore_patterns ob) (src_path e)"
    and "popen_ok env (command_line c) (cwd c)"
  shows "dispatch env ob c e fx =
           (None, fx @ [LogInfo (''File system event: ['' @ event_type_str (event_type e)
                                   @ ''] '' @ src_path e),
                        Popen (command_line c) (cwd c), Wait])"
  using assms by (simp add: dispatch_def on_any_event_def on_fs_event_def)

lemma dispatch_no_match:
  "\<not> match_any_paths env (obs_patterns ob) (obs_ignore_patterns ob) (src_path e) \<Longrightarrow>
   dispatch env ob c e fx = (None, fx)"
  by (simp add: dispatch_def)

lemma dispatch_events_processes:
  assumes "popen_ok env (command_line c) (cwd c)"
  shows "fst (dispatch_events env ob c es fx) = None \<and>
         filter is_process_effect (snd (dispatch_events env ob c es fx)) =
           filter is_process_effect fx @
           concat (map (\<lambda>e. [Popen (command_line c) (cwd c), Wait])
                    (filter (\<lambda>e. match_any_paths env (obs_patterns ob) (obs_ignore_patterns ob)
                                    (src_path e)) es))"
proof (induction es arbitrary: fx)
  case Nil then show ?case by simp
next
  case (Cons e es)
  show ?case
  proof (cases "match_any_paths env (obs_patterns ob) (obs_ignore_patterns ob) (src_path e)")
    case True
    then show ?thesis using Cons.IH dispatch_match[OF True assms] by simp
  next
    case False
    then show ?thesis using Cons.IH dispatch_no_match[OF False] by simp
  qed
qed

lemma dirname_example: "dirname ''/home/u/demo.py'' = ''/home/u''"
  by (simp add: dirname_def)

section \<open>The claims\<close>




text \<open>
  C2 (teardown eligibility). \<open>can_be_deregistered\<close> is true exactly when the grace period
  has ended, the producer is no longer attached (\<open>_has_local\<close> is false) and there is no
  client queue; it is false as soon as one of the three fails.
\<close>

theorem can_be_deregistered_iff:
  "can_be_deregistered s =
     (\<not> in_grace_period (conn s) \<and> \<not> has_local (conn s) \<and> client_queues (conn s) = [])"
  by (simp add: can_be_deregistered_def)

text \<open>
  C3 (post-close drop). After \<open>finished_local_connection\<close>, and after any further
  history, \<open>enqueue\<close> returns normally, leaves the master queue as
  \<open>finished_local_connection\<close> left it, and \<open>serialize_report_to_files\<close> returns the
  same entries as right after \<open>finished_local_connection\<close>: same count, same paths, same
  contents.
\<close>

theorem post_close_drop:
  assumes "run env (finished_local_connection s) xs = Inr s'"
  shows "fst (serialize_report_to_files env (enqueue s' d)) =
           fst (serialize_report_to_files env (finished_local_connection s)) \<and>
         master_queue (conn (enqueue s' d)) = master_queue (conn (finished_local_connection s))"
proof -
  let ?f = "finished_local_connection s"
  have cl: "closed (master_queue (conn ?f))"
    by (simp add: conn_finished ReportQueue_close_def)
  have m: "master_queue (conn s') = master_queue (conn ?f)"
    using run_master_closed[OF assms cl] .
  have m': "master_queue (conn (enqueue s' d)) = master_queue (conn ?f)"
    using m cl by (simp add: conn_enqueue ReportQueue_call_def)
  have "frame_of (conn (enqueue s' d)) = frame_of (conn s')"
    by (simp add: conn_enqueue frame_of_def)
  then have fr: "frame_of (conn (enqueue s' d)) = frame_of (conn ?f)"
    using run_frame[OF assms] by simp
  show ?thesis using serialize_cong[OF fr] m' by simp
qed

theorem post_close_drop_witness:
  "fst (serialize_report_to_files example_env
          (enqueue (enqueue (finished_local_connection (enqueue example_conn ''b0'')) ''b1'') ''b2''))
     = fst (serialize_report_to_files example_env (enqueue example_conn ''b0'')) \<and>
   deltas (master_queue (conn
          (enqueue (enqueue (finished_local_connection (enqueue example_conn ''b0'')) ''b1'') ''b2'')))
     = [''b0'']"
proof -
  let ?s = "enqueue example_conn ''b0''"
  have 1: "run example_env (finished_local_connection ?s) [Enqueue ''b1'']
             = Inr (enqueue (finished_local_connection ?s) ''b1'')"
    by simp
  have 2: "deltas (master_queue (conn (finished_local_connection ?s))) = [''b0'']"
    by (simp add: conn_finished conn_enqueue example_conn_def ProxyConnection_init_def
          ReportQueue_close_def ReportQueue_call_def ReportQueue_init_def)
  have 3: "fst (serialize_report_to_files example_env (finished_local_connection ?s))
             = fst (serialize_report_to_files example_env ?s)"
    by (rule serialize_cong) (simp_all add: conn_finished frame_of_def ReportQueue_close_def)
  show ?thesis
    using post_close_drop[OF 1, of "''b2''"] 2 3 by simp
qed

text \<open>
  C4 (detaching a queue that is not attached), as the code has it. In every state a
  connection can reach, \<open>remove_client_queue q\<close> for a queue \<open>q\<close> that is not among the
  client queues raises \<open>ValueError\<close>; for an attached \<open>q\<close> it removes \<open>q\<close>, and a second
  removal of the same \<open>q\<close> raises \<open>ValueError\<close>. The claim that it never raises does not
  hold: see the example after the theorem.
\<close>

theorem remove_client_queue_not_found:
  assumes "run env (ProxyConnection_init env h msg nm) xs = Inr s"
  shows "(q \<notin> set (client_queues (conn s)) \<longrightarrow> remove_client_queue s q = Inl ValueError) \<and>
         (q \<in> set (client_queues (conn s)) \<longrightarrow>
            (\<exists>s'. remove_client_queue s q = Inr s' \<and>
                  client_queues (conn s') = remove1 q (client_queues (conn s)) \<and>
                  remove_client_queue s' q = Inl ValueError))"
proof -
  have "wf_clients s" using run_wf[OF assms init_wf] .
  then show ?thesis by (simp add: remove_client_queue_def wf_clients_def)
qed

theorem remove_client_queue_not_found_witness:
  "remove_client_queue (snd (add_client_queue example_conn)) 5 = Inl ValueError \<and>
   (\<exists>s'. remove_client_queue (snd (add_client_queue example_conn)) 0 = Inr s' \<and>
         client_queues (conn s') = [] \<and>
         remove_client_queue s' 0 = Inl ValueError)"
proof -
  let ?s = "snd (add_client_queue example_conn)"
  have 1: "run example_env (ProxyConnection_init example_env [] example_msg ''demo'')
             [AddClientQueue] = Inr ?s"
    by (simp add: example_conn_def)
  have 2: "client_queues (conn ?s) = [0]"
    by (simp add: conn_add example_conn_def ProxyConnection_init_def)
  show ?thesis
    using remove_client_queue_not_found[OF 1, of 5] remove_client_queue_not_found[OF 1, of 0]
    by (simp add: 2)
qed

text \<open>
  On a connection that has no client queue yet, detaching a queue raises \<open>ValueError\<close>.
\<close>

theorem remove_unattached_raises_counterexample:
  "0 \<notin> set (client_queues (conn example_conn)) \<and>
   remove_client_queue example_conn 0 = Inl ValueError"
  by (simp add: remove_client_queue_def example_conn_def ProxyConnection_init_def)

text \<open>
  C5 (archive shape). For a connection created with id \<open>I\<close> and name \<open>N\<close>, after any
  history that enqueued the deltas \<open>d\<^sub>0 \<dots> d\<^bsub>n-1\<^esub>\<close>, \<open>serialize_report_to_files\<close>
  returns \<open>n + 1\<close> entries: first \<open>reports/I/manifest.json\<close> with \<open>json.dumps\<close> of the object
  with fields \<open>name = N\<close>, \<open>local_id\<close> the string of the local id and \<open>nDeltas = n\<close>, then
  for each \<open>k < n\<close> the entry \<open>reports/I/k.delta\<close> with the serialized bytes of \<open>d\<^sub>k\<close>.
\<close>

theorem archive_shape:
  assumes "run env (ProxyConnection_init env h msg nm) xs = Inr s"
  shows "fst (serialize_report_to_files env s) =
           (''reports/'' @ msg_id msg @ ''/manifest.json'',
            json_dumps env (JObj [(''name'', JStr nm),
                                  (''local_id'', JStr (get_local_id env)),
                                  (''nDeltas'', JInt (int (length (accepted xs))))]))
           # map (\<lambda>k. (''reports/'' @ msg_id msg @ ''/'' @ str_nat k @ ''.delta'',
                        SerializeToString env (accepted xs ! k)))
                 [0..<length (accepted xs)]
         \<and> length (fst (serialize_report_to_files env s)) = length (accepted xs) + 1"
proof -
  have fr: "conn_id (conn s) = msg_id msg" "name (conn s) = nm"
    using run_frame[OF assms] by (simp_all add: frame_of_def ProxyConnection_init_def)
  have ds: "deltas (master_queue (conn s)) = accepted xs"
    using run_init_master_deltas[OF assms] .
  show ?thesis
    unfolding serialize_entries fr ds by simp
qed

theorem archive_shape_witness:
  "fst (serialize_report_to_files example_env
          (enqueue (enqueue (enqueue example_conn ''b0'') ''b1'') ''b2'')) =
     [(''reports/abc/manifest.json'',
       render_json (JObj [(''name'', JStr ''demo''), (''local_id'', JStr ''42''),
                          (''nDeltas'', JInt 3)])),
      (''reports/abc/0.delta'', ''b0''),
      (''reports/abc/1.delta'', ''b1''),
      (''reports/abc/2.delta'', ''b2'')]"
proof -
  have 1: "run example_env (ProxyConnection_init example_env [] example_msg ''demo'')
             [Enqueue ''b0'', Enqueue ''b1'', Enqueue ''b2'']
           = Inr (enqueue (enqueue (enqueue example_conn ''b0'') ''b1'') ''b2'')"
    by (simp add: example_conn_def)
  have up: "[0..<3] = [0, 1, 2]" by (simp add: upt_conv_Cons)
  show ?thesis
    using archive_shape[OF 1]
    by (simp add: example_env_def example_msg_def up del: render_json.simps)
qed

text \<open>
  C6 (watcher fallback). With watching enabled: when recursive mode is requested, the
  recursive start fails and the flat start succeeds, the new connection has a flat
  observer; when flat mode is requested and fails, the only start attempted is the flat
  one and the connection has no observer; when both starts fail there is no observer
  either. In every case the constructor returns a connection with a producer, in its
  grace period, with an empty master queue and no client queue.
\<close>

theorem watcher_fallback:
  "(watchFileSystem env \<and> watchUpdatesRecursively env \<and>
      \<not> observer_start_ok env (dirname (msg_source_file_path msg)) True \<and>
      observer_start_ok env (dirname (msg_source_file_path msg)) False
    \<longrightarrow> fs_observer (conn (ProxyConnection_init env h msg nm)) =
          Some \<lparr>obs_path = dirname (msg_source_file_path msg), obs_recursive = False,
                obs_patterns = watchPatterns env, obs_ignore_patterns = ignorePatterns env,
                stop_requested = False\<rparr>) \<and>
   (watchFileSystem env \<and> \<not> watchUpdatesRecursively env \<and>
      \<not> observer_start_ok env (dirname (msg_source_file_path msg)) False
    \<longrightarrow> fs_observer (conn (ProxyConnection_init env h msg nm)) = None \<and>
        snd (initialize_fs_observer_with_fallback env (msg_source_file_path msg)) =
          [(dirname (msg_source_file_path msg), False)]) \<and>
   (watchFileSystem env \<and> watchUpdatesRecursively env \<and>
      \<not> observer_start_ok env (dirname (msg_source_file_path msg)) True \<and>
      \<not> observer_start_ok env (dirname (msg_source_file_path msg)) False
    \<longrightarrow> fs_observer (conn (ProxyConnection_init env h msg nm)) = None \<and>
        snd (initialize_fs_observer_with_fallback env (msg_source_file_path msg)) =
          [(dirname (msg_source_file_path msg), True),
           (dirname (msg_source_file_path msg), False)]) \<and>
   has_local (conn (ProxyConnection_init env h msg nm)) \<and>
   in_grace_period (conn (ProxyConnection_init env h msg nm)) \<and>
   master_queue (conn (ProxyConnection_init env h msg nm)) = ReportQueue_init \<and>
   client_queues (conn (ProxyConnection_init env h msg nm)) = [] \<and>
   store (ProxyConnection_init env h msg nm) = h"
  by (simp add: ProxyConnection_init_def initialize_fs_observer_with_fallback_def
        initialize_fs_observer_def Let_def)

theorem watcher_fallback_witness:
  "fs_observer (conn (ProxyConnection_init example_env [] example_msg ''demo'')) =
     Some \<lparr>obs_path = ''/home/u'', obs_recursive = False,
           obs_patterns = [''*.py''], obs_ignore_patterns = [], stop_requested = False\<rparr> \<and>
   fs_observer (conn (ProxyConnection_init
       (example_env\<lparr>watchUpdatesRecursively := False, observer_start_ok := (\<lambda>p r. False)\<rparr>)
       [] example_msg ''demo'')) = None \<and>
   snd (initialize_fs_observer_with_fallback
       (example_env\<lparr>watchUpdatesRecursively := False, observer_start_ok := (\<lambda>p r. False)\<rparr>)
       ''/home/u/demo.py'') = [(''/home/u'', False)] \<and>
   fs_observer (conn (ProxyConnection_init
       (example_env\<lparr>observer_start_ok := (\<lambda>p r. False)\<rparr>) [] example_msg ''demo'')) = None"
  using watcher_fallback[of example_env example_msg "[]" "''demo''"]
        watcher_fallback[of "example_env\<lparr>watchUpdatesRecursively := False,
                                          observer_start_ok := (\<lambda>p r. False)\<rparr>"
                            example_msg "[]" "''demo''"]
        watcher_fallback[of "example_env\<lparr>observer_start_ok := (\<lambda>p r. False)\<rparr>"
                            example_msg "[]" "''demo''"]
  by (simp add: example_env_def example_msg_def dirname_example)

text \<open>
  C7 (export leaves the connection alone). \<open>serialize_report_to_files\<close> drains a clone of
  the master queue: the state it leaves is the state it found (master queue with its
  contents and closed flag, client queues, grace period flag, producer flag), and a
  second call returns the same entries.
\<close>

theorem serialize_leaves_state:
  "snd (serialize_report_to_files env s) = s \<and>
   fst (serialize_report_to_files env (snd (serialize_report_to_files env s)))
     = fst (serialize_report_to_files env s)"
  by simp

text \<open>
  C8 (attach). In every state, with or without a producer and whatever the master queue
  holds, \<open>add_client_queue\<close> ends the grace period, returns a queue object that did not
  exist before and is the \<open>clone()\<close> of the master queue, and appends that object to the
  client queues.
\<close>

theorem add_client_queue_effect:
  "\<not> in_grace_period (conn (snd (add_client_queue s))) \<and>
   store_get (store s) (fst (add_client_queue s)) = None \<and>
   store_get (store (snd (add_client_queue s))) (fst (add_client_queue s))
     = Some (ReportQueue_clone (master_queue (conn s))) \<and>
   client_queues (conn (snd (add_client_queue s)))
     = client_queues (conn s) @ [fst (add_client_queue s)]"
  by (simp add: conn_add store_add fst_add store_get_def)

text \<open>
  C9 (the grace period is monotonic). A new connection is in its grace period, and no
  history of method calls (\<open>enqueue\<close>, \<open>add_client_queue\<close>, \<open>remove_client_queue\<close>,
  \<open>finished_local_connection\<close>, \<open>end_grace_period\<close>, \<open>can_be_deregistered\<close>,
  \<open>serialize_report_to_files\<close>, \<open>close\<close>) that starts outside the grace period ends in it.
\<close>

theorem grace_period_monotonic:
  "in_grace_period (conn (ProxyConnection_init env h msg nm)) \<and>
   (run env s xs = Inr s' \<longrightarrow> \<not> in_grace_period (conn s) \<longrightarrow> \<not> in_grace_period (conn s'))"
  using run_grace by (auto simp: ProxyConnection_init_def)

theorem grace_period_monotonic_witness:
  "in_grace_period (conn example_conn) \<and>
   \<not> in_grace_period (conn (enqueue (snd (add_client_queue (end_grace_period example_conn))) ''b0''))"
proof -
  let ?s = "end_grace_period example_conn"
  let ?s' = "enqueue (snd (add_client_queue ?s)) ''b0''"
  have 1: "run example_env ?s [AddClientQueue, Enqueue ''b0''] = Inr ?s'" by simp
  have 2: "\<not> in_grace_period (conn ?s)" by (simp add: end_grace_period_def)
  show ?thesis
    using grace_period_monotonic[of example_env "[]" example_msg "''demo''" ?s
            "[AddClientQueue, Enqueue ''b0'']" ?s'] 1 2
    by (simp add: example_conn_def)
qed

text \<open>
  C10 (every event type re-runs). In any state the connection has reached, an event
  that passes the pattern filter, whatever its type \<open>t\<close>, makes the handler start the
  command line the connection was created with, in the working directory it was created
  with, and wait for that process, provided the process can be started. Over a list of
  events the processes are started and waited for one after the other, one per event
  that passes the filter.
\<close>

theorem rerun_on_every_event_type:
  assumes "run env (ProxyConnection_init env h msg nm) xs = Inr s"
    and "match_any_paths env (obs_patterns ob) (obs_ignore_patterns ob) (src_path e)"
    and "popen_ok env (msg_command_line msg) (msg_cwd msg)"
  shows "dispatch env ob (conn s) (e\<lparr>event_type := t\<rparr>) fx =
           (None, fx @ [LogInfo (''File system event: ['' @ event_type_str t
                                   @ ''] '' @ src_path e),
                        Popen (msg_command_line msg) (msg_cwd msg), Wait]) \<and>
         fst (dispatch_events env ob (conn s) es fx) = None \<and>
         filter is_process_effect (snd (dispatch_events env ob (conn s) es fx)) =
           filter is_process_effect fx @
           concat (map (\<lambda>e. [Popen (msg_command_line msg) (msg_cwd msg), Wait])
                    (filter (\<lambda>e. match_any_paths env (obs_patterns ob) (obs_ignore_patterns ob)
                                    (src_path e)) es))"
proof -
  have fr: "command_line (conn s) = msg_command_line msg" "cwd (conn s) = msg_cwd msg"
    using run_frame[OF assms(1)] by (simp_all add: frame_of_def ProxyConnection_init_def)
  have ok: "popen_ok env (command_line (conn s)) (cwd (conn s))"
    using assms(3) fr by simp
  have m: "match_any_paths env (obs_patterns ob) (obs_ignore_patterns ob)
             (src_path (e\<lparr>event_type := t\<rparr>))"
    using assms(2) by simp
  show ?thesis
    using dispatch_match[OF m ok, of fx] dispatch_events_processes[OF ok, of ob es fx] fr
    by simp
qed

theorem rerun_on_every_event_type_witness:
  "dispatch example_env example_observer (conn (enqueue example_conn ''b0''))
      \<lparr>event_type = Deleted, src_path = ''/home/u/demo.py''\<rparr> [] =
     (None, [LogInfo ''File system event: [deleted] /home/u/demo.py'',
             Popen [''python'', ''demo.py''] ''/home/u'', Wait]) \<and>
   filter is_process_effect (snd (dispatch_events example_env example_observer
      (conn (enqueue example_conn ''b0''))
      [\<lparr>event_type = Created, src_path = ''/home/u/a.py''\<rparr>,
       \<lparr>event_type = Moved, src_path = ''/home/u/a.py''\<rparr>] [])) =
     [Popen [''python'', ''demo.py''] ''/home/u'', Wait,
      Popen [''python'', ''demo.py''] ''/home/u'', Wait]"
proof -
  have 1: "run example_env (ProxyConnection_init example_env [] example_msg ''demo'')
             [Enqueue ''b0''] = Inr (enqueue example_conn ''b0'')"
    by (simp add: example_conn_def)
  have 2: "match_any_paths example_env (obs_patterns example_observer)
             (obs_ignore_patterns example_observer)
             (src_path \<lparr>event_type = Created, src_path = ''/home/u/demo.py''\<rparr>)"
    by (simp add: example_env_def)
  have 3: "popen_ok example_env (msg_command_line example_msg) (msg_cwd example_msg)"
    by (simp add: example_env_def)
  show ?thesis
    using rerun_on_every_event_type[OF 1 2 3, of Deleted "[]"
            "[\<lparr>event_type = Created, src_path = ''/home/u/a.py''\<rparr>,
              \<lparr>event_type = Moved, src_path = ''/home/u/a.py''\<rparr>]"]
    by (simp add: example_env_def example_msg_def)
qed

end
